theory Spec2Isabelle
  imports Complex_Main
begin

section \<open>LyricsFlip front-end: system calls and the challenge modal\<close>

text \<open>
  A shallow embedding of \<^verbatim>\<open>src/lib/dojo/useSystemCalls.ts\<close> (the hook
  \<^verbatim>\<open>useSystemCalls\<close> with \<^verbatim>\<open>createRound\<close>, \<^verbatim>\<open>joinRound\<close>,
  \<^verbatim>\<open>startRound\<close>) and of the display logic of the \<^verbatim>\<open>ChallengeModal\<close>
  component that follows it in the same file.

  JavaScript \<^verbatim>\<open>bigint\<close> values are \<open>int\<close>, strings are \<open>string\<close>,
  a possibly missing value (\<^verbatim>\<open>undefined\<close>, \<^verbatim>\<open>null\<close>) is \<open>None\<close>.
  A thrown value (a rejected promise of an \<^verbatim>\<open>async\<close> function) is \<open>Inl\<close> of a
  sum, a returned value is \<open>Inr\<close>. Console output is not modelled.
\<close>

subsection \<open>Data model\<close>

text \<open>
  A thrown JavaScript value: \<^verbatim>\<open>new Error(msg)\<close> is \<open>Error msg\<close>; the runtime's
  own \<^verbatim>\<open>TypeError\<close> (a property read on \<^verbatim>\<open>undefined\<close>) and
  \<^verbatim>\<open>SyntaxError\<close> (\<^verbatim>\<open>BigInt\<close> of a string that is no integer) carry
  what was read or converted.
\<close>

datatype error = Error string | TypeError string | SyntaxError string

text \<open>The connected wallet account; only \<^verbatim>\<open>account.address\<close> is read.\<close>

record account =
  address :: string

text \<open>The transaction id returned by \<^verbatim>\<open>uuidv4()\<close>.\<close>

type_synonym transaction_id = string

text \<open>
  The \<^verbatim>\<open>round\<close> object of a \<^verbatim>\<open>Rounds\<close> model, with the fields that
  \<^verbatim>\<open>createRound\<close> writes.
\<close>

record round =
  creator :: string
  genre :: string
  wager_amount :: int
  start_time :: int
  state :: int
  end_time :: int
  next_card_index :: int
  players_count :: int
  ready_players_count :: int

text \<open>
  A \<^verbatim>\<open>Rounds\<close> model. \<^verbatim>\<open>startRound\<close> writes to
  \<^verbatim>\<open>Rounds.round.state\<close> without testing \<^verbatim>\<open>Rounds.round\<close>, which throws
  when the model has no \<^verbatim>\<open>round\<close>; so the field is optional here.
\<close>

record rounds_model =
  round_id :: int
  round :: "round option"

record round_player =
  player_to_round_id :: "string \<times> int"
  joined :: bool
  ready_state :: bool

text \<open>
  The \<^verbatim>\<open>RoundCreated\<close> event model. Its fields are \<^verbatim>\<open>round_id\<close> and
  \<^verbatim>\<open>creator\<close> in the source; they carry a prime here because the \<^verbatim>\<open>Rounds\<close>
  model already has fields of these names.
\<close>

record round_created =
  round_id' :: int
  creator' :: string

text \<open>
  The namespace object \<^verbatim>\<open>models.lyricsflip\<close>: each model may be absent.
\<close>

record lyricsflip_models =
  Rounds :: "rounds_model option"
  RoundPlayer :: "round_player option"
  RoundCreated :: "round_created option"

record models =
  lyricsflip :: "lyricsflip_models option"

text \<open>
  An entity of the store. \<open>'id\<close> is the type of the entity ids that the SDK function
  \<^verbatim>\<open>getEntityIdFromKeys\<close> returns. \<^verbatim>\<open>startRound\<close> reads
  \<^verbatim>\<open>existingRound?.models?.lyricsflip?.Rounds\<close>, so \<open>models\<close> and the namespace
  are optional.
\<close>

record 'id entity =
  entityId :: 'id
  models :: "models option"

text \<open>
  The draft handed to an optimistic update: \<^verbatim>\<open>draft.entities\<close> is an object
  indexed by entity id.
\<close>

record 'id draft =
  entities :: "'id \<Rightarrow> 'id entity option"

subsection \<open>The SDK functions the hook calls\<close>

text \<open>
  The functions of the JavaScript runtime and of the Dojo SDK that the code calls and
  whose code is not part of this repository are parameters of the model:
  \<^item> \<open>getEntityIdFromKeys\<close> is \<^verbatim>\<open>getEntityIdFromKeys\<close> of
    \<^verbatim>\<open>@dojoengine/utils\<close>, from a list of \<^verbatim>\<open>bigint\<close> keys to an entity id;
  \<^item> \<open>BigInt\<close> is \<^verbatim>\<open>BigInt(s)\<close> on a string, which throws when \<open>s\<close> is
    not an integer literal;
  \<^item> \<open>roundIdOfResult\<close> is the expression
    \<^verbatim>\<open>BigInt(roundIdResult[0] || roundIdResult.toString())\<close> on the value (of type
    \<open>'r\<close>) that \<^verbatim>\<open>client.actions.getRoundId()\<close> resolves to.
\<close>

record ('id, 'r) sdk =
  getEntityIdFromKeys :: "int list \<Rightarrow> 'id"
  BigInt :: "string \<Rightarrow> error + int"
  roundIdOfResult :: "'r \<Rightarrow> error + int"

text \<open>
  The remote contract client \<^verbatim>\<open>client.actions\<close>: what each awaited call
  resolves to (\<open>Inr\<close>) or rejects with (\<open>Inl\<close>). The genre argument is the
  \<^verbatim>\<open>CairoCustomEnum\<close>, represented by its \<^verbatim>\<open>activeVariant()\<close>.
\<close>

record 'r client_actions =
  actions_createRound :: "account \<Rightarrow> string \<Rightarrow> error + unit"
  actions_getRoundId :: "error + 'r"
  actions_joinRound :: "account \<Rightarrow> int \<Rightarrow> error + unit"
  actions_startRound :: "account \<Rightarrow> int \<Rightarrow> error + unit"

subsection \<open>Calls and the effect log\<close>

text \<open>
  The calls an operation makes on the remote client, on the timer and on the store
  (\<^verbatim>\<open>state.applyOptimisticUpdate\<close>, \<^verbatim>\<open>state.revertOptimisticUpdate\<close>,
  \<^verbatim>\<open>state.confirmTransaction\<close>), in the order it makes them. The update function
  handed to \<^verbatim>\<open>applyOptimisticUpdate\<close> runs inside that call, on the store's
  current draft, and may throw: it is a function from a draft to a thrown error or the
  changed draft.
\<close>

datatype 'id call =
    ActionCreateRound account string
  | Delay nat
  | ActionGetRoundId
  | ActionJoinRound account int
  | ActionStartRound account int
  | ApplyOptimisticUpdate transaction_id "'id draft \<Rightarrow> error + 'id draft"
  | RevertOptimisticUpdate transaction_id
  | ConfirmTransaction transaction_id

text \<open>
  A computation is the log of the calls it made and how it ended: \<open>Inl e\<close> when it
  threw \<open>e\<close>, \<open>Inr x\<close> when it returned \<open>x\<close>.
\<close>

type_synonym ('id, 'a) prog = "'id call list \<times> (error + 'a)"

definition return :: "'a \<Rightarrow> ('id, 'a) prog" where
  "return x = ([], Inr x)"

definition throw :: "error \<Rightarrow> ('id, 'a) prog" where
  "throw e = ([], Inl e)"

text \<open>Sequencing: a throw in the first part skips the rest.\<close>

definition bind :: "('id, 'a) prog \<Rightarrow> ('a \<Rightarrow> ('id, 'b) prog) \<Rightarrow> ('id, 'b) prog" where
  "bind m f =
     (case snd m of
        Inl e \<Rightarrow> (fst m, Inl e)
      | Inr x \<Rightarrow> (fst m @ fst (f x), snd (f x)))"

text \<open>
  A call that returns nothing of interest and does not throw: the timer,
  \<^verbatim>\<open>revertOptimisticUpdate\<close>, \<^verbatim>\<open>confirmTransaction\<close>, and
  \<^verbatim>\<open>applyOptimisticUpdate\<close> with an update function that cannot throw.
\<close>

definition perform :: "'id call \<Rightarrow> ('id, unit) prog" where
  "perform c = ([c], Inr ())"

text \<open>An update function that cannot throw, as the store receives it.\<close>

definition completes :: "('id draft \<Rightarrow> 'id draft) \<Rightarrow> 'id draft \<Rightarrow> error + 'id draft" where
  "completes f draft = Inr (f draft)"

text \<open>
  \<^verbatim>\<open>state.applyOptimisticUpdate(transactionId, updateFn)\<close> when the store holds
  \<open>draft\<close>: the call is made, and it throws what the update function throws on that
  draft.
\<close>

definition applyUpdate ::
  "transaction_id \<Rightarrow> ('id draft \<Rightarrow> error + 'id draft) \<Rightarrow> 'id draft \<Rightarrow> ('id, unit) prog" where
  "applyUpdate transactionId updateFn draft =
     ([ApplyOptimisticUpdate transactionId updateFn],
      case updateFn draft of Inl e \<Rightarrow> Inl e | Inr changed \<Rightarrow> Inr ())"

text \<open>An awaited remote call: it is logged, and resolves or rejects as the client says.\<close>

definition await :: "'id call \<Rightarrow> error + 'a \<Rightarrow> ('id, 'a) prog" where
  "await c outcome = ([c], outcome)"

text \<open>An expression that may throw and calls nothing.\<close>

definition eval_expr :: "error + 'a \<Rightarrow> ('id, 'a) prog" where
  "eval_expr outcome = ([], outcome)"

text \<open>
  \<^verbatim>\<open>try { body } catch (error) { handler } finally { fin }\<close>: the handler runs when
  the body threw, the \<^verbatim>\<open>finally\<close> block runs in every case, and the statement
  ends as the body (or, after a throw, the handler) ended unless the
  \<^verbatim>\<open>finally\<close> block throws itself.
\<close>

definition try_catch_finally ::
  "('id, 'a) prog \<Rightarrow> (error \<Rightarrow> ('id, 'a) prog) \<Rightarrow> ('id, unit) prog \<Rightarrow> ('id, 'a) prog" where
  "try_catch_finally body handler fin =
     (let caught = (case snd body of
                      Inl e \<Rightarrow> (fst body @ fst (handler e), snd (handler e))
                    | Inr x \<Rightarrow> body)
      in (fst caught @ fst fin,
          case snd fin of Inl e' \<Rightarrow> Inl e' | Inr u \<Rightarrow> snd caught))"

subsection \<open>The optimistic updates\<close>

text \<open>
  The update function \<^verbatim>\<open>createRound\<close> passes to
  \<^verbatim>\<open>applyOptimisticUpdate\<close>. \<open>a\<close> is the account, \<open>activeVariant\<close> the
  value of \<^verbatim>\<open>genre.activeVariant()\<close>, \<open>actualRoundId\<close> the id read back from
  the contract; \<open>now1\<close> and \<open>now2\<close> are the values of the two calls of
  \<^verbatim>\<open>Date.now()\<close>, in order.
  \<^verbatim>\<open>account?.address || ""\<close> is the address, or the empty string when the
  address is empty.
\<close>

definition createRound_update ::
  "('id, 'r) sdk \<Rightarrow> account \<Rightarrow> string \<Rightarrow> int \<Rightarrow> int \<Rightarrow> int \<Rightarrow> 'id draft \<Rightarrow> 'id draft" where
  "createRound_update env a activeVariant actualRoundId now1 now2 draft =
     (let roundsEntityId = getEntityIdFromKeys env [actualRoundId];
          draft1 =
            (if entities draft roundsEntityId = None
             then draft\<lparr>entities := (entities draft)(roundsEntityId \<mapsto>
                    \<lparr>entityId = roundsEntityId,
                     models = Some \<lparr>lyricsflip = Some
                       \<lparr>Rounds = Some
                          \<lparr>round_id = actualRoundId,
                           round = Some
                                   \<lparr>creator = (if address a = [] then [] else address a),
                                    genre = activeVariant,
                                    wager_amount = 0,
                                    start_time = now1,
                                    state = 0,
                                    end_time = 0,
                                    next_card_index = 0,
                                    players_count = 1,
                                    ready_players_count = 0\<rparr>\<rparr>,
                        RoundPlayer = None,
                        RoundCreated = None\<rparr>\<rparr>\<rparr>)\<rparr>
             else draft);
          eventEntityId = getEntityIdFromKeys env [actualRoundId, now2]
      in if entities draft1 eventEntityId = None
         then draft1\<lparr>entities := (entities draft1)(eventEntityId \<mapsto>
                \<lparr>entityId = eventEntityId,
                 models = Some \<lparr>lyricsflip = Some
                   \<lparr>Rounds = None,
                    RoundPlayer = None,
                    RoundCreated = Some
                      \<lparr>round_id' = actualRoundId,
                       creator' = (if address a = [] then [] else address a)\<rparr>\<rparr>\<rparr>\<rparr>)\<rparr>
         else draft1)"

text \<open>
  The update function of \<^verbatim>\<open>joinRound\<close>; \<open>entityId\<close> is the value of
  \<^verbatim>\<open>generateEntityId()\<close>.
\<close>

definition joinRound_update :: "account \<Rightarrow> int \<Rightarrow> 'id \<Rightarrow> 'id draft \<Rightarrow> 'id draft" where
  "joinRound_update a roundId entityId' draft =
     (if entities draft entityId' = None
      then draft\<lparr>entities := (entities draft)(entityId' \<mapsto>
             \<lparr>entityId = entityId',
              models = Some \<lparr>lyricsflip = Some
                \<lparr>Rounds = None,
                 RoundPlayer = Some
                   \<lparr>player_to_round_id = (address a, roundId),
                    joined = True,
                    ready_state = False\<rparr>,
                 RoundCreated = None\<rparr>\<rparr>\<rparr>)\<rparr>
      else draft)"

text \<open>The optional chain \<^verbatim>\<open>existingRound?.models?.lyricsflip?.Rounds\<close>.\<close>

definition roundsOf :: "'id entity option \<Rightarrow> rounds_model option" where
  "roundsOf existingRound =
     (case existingRound of
        None \<Rightarrow> None
      | Some e \<Rightarrow>
          (case models e of
             None \<Rightarrow> None
           | Some m \<Rightarrow>
               (case lyricsflip m of
                  None \<Rightarrow> None
                | Some ns \<Rightarrow> Rounds ns)))"

text \<open>
  The two assignments below the test in \<^verbatim>\<open>startRound\<close>'s update, on an entity
  that has the model: \<^verbatim>\<open>existingRound.models.lyricsflip.Rounds.round.state = 1\<close>
  and \<^verbatim>\<open>....round.start_time = BigInt(Date.now())\<close>. When the model has no
  \<^verbatim>\<open>round\<close>, the first assignment throws a \<^verbatim>\<open>TypeError\<close> and nothing
  has been written.
\<close>

definition setStarted :: "int \<Rightarrow> 'id entity \<Rightarrow> error + 'id entity" where
  "setStarted now e =
     (case models e of
        None \<Rightarrow> Inr e
      | Some m \<Rightarrow>
          (case lyricsflip m of
             None \<Rightarrow> Inr e
           | Some ns \<Rightarrow>
               (case Rounds ns of
                  None \<Rightarrow> Inr e
                | Some r \<Rightarrow>
                    (case round r of
                       None \<Rightarrow> Inl (TypeError ''state'')
                     | Some rd \<Rightarrow>
                         Inr (e\<lparr>models := Some (m\<lparr>lyricsflip := Some (ns\<lparr>Rounds := Some
                           (r\<lparr>round := Some (rd\<lparr>state := 1, start_time := now\<rparr>)\<rparr>)\<rparr>)\<rparr>)\<rparr>)))))"

text \<open>
  The update function of \<^verbatim>\<open>startRound\<close>; \<open>now\<close> is \<^verbatim>\<open>Date.now()\<close>. It
  returns the changed draft, or the error it throws.
\<close>

definition startRound_update ::
  "('id, 'r) sdk \<Rightarrow> int \<Rightarrow> int \<Rightarrow> 'id draft \<Rightarrow> error + 'id draft" where
  "startRound_update env roundId now draft =
     (let roundsEntityId = getEntityIdFromKeys env [roundId];
          existingRound = entities draft roundsEntityId
      in case existingRound of
           None \<Rightarrow> Inr draft
         | Some e \<Rightarrow>
             (if roundsOf existingRound \<noteq> None
              then (case setStarted now e of
                      Inl err \<Rightarrow> Inl err
                    | Inr started \<Rightarrow>
                        Inr (draft\<lparr>entities := (entities draft)(roundsEntityId \<mapsto> started)\<rparr>))
              else Inr draft))"

subsection \<open>The operations of the hook\<close>

text \<open>
  \<^verbatim>\<open>generateEntityId\<close>: throws without an account, and converts the address with
  \<^verbatim>\<open>BigInt\<close>, which may throw.
\<close>

definition generateEntityId :: "('id, 'r) sdk \<Rightarrow> account option \<Rightarrow> ('id, 'id) prog" where
  "generateEntityId env account =
     (case account of
        None \<Rightarrow> throw (Error ''Account not available'')
      | Some a \<Rightarrow>
          bind (eval_expr (BigInt env (address a))) (\<lambda>k.
          return (getEntityIdFromKeys env [k])))"

text \<open>
  \<^verbatim>\<open>createRound\<close>. \<open>transactionId\<close> is the value of \<^verbatim>\<open>uuidv4()\<close>,
  which is called after the account check.
\<close>

definition createRound ::
  "('id, 'r) sdk \<Rightarrow> 'r client_actions \<Rightarrow> account option \<Rightarrow> string \<Rightarrow> transaction_id \<Rightarrow> int \<Rightarrow> int
     \<Rightarrow> ('id, int) prog" where
  "createRound env client account activeVariant transactionId now1 now2 =
     (case account of
        None \<Rightarrow> throw (Error ''Account not available'')
      | Some a \<Rightarrow>
          try_catch_finally
            (bind (await (ActionCreateRound a activeVariant)
                     (actions_createRound client a activeVariant)) (\<lambda>txResult.
             bind (perform (Delay 2000)) (\<lambda>_.
             bind (await ActionGetRoundId (actions_getRoundId client)) (\<lambda>roundIdResult.
             bind (eval_expr (roundIdOfResult env roundIdResult)) (\<lambda>actualRoundId.
             bind (perform (ApplyOptimisticUpdate transactionId
                     (completes (createRound_update env a activeVariant actualRoundId now1 now2)))) (\<lambda>_.
             return actualRoundId))))))
            (\<lambda>error.
               bind (perform (RevertOptimisticUpdate transactionId)) (\<lambda>_.
               throw error))
            (perform (ConfirmTransaction transactionId)))"

text \<open>
  \<^verbatim>\<open>joinRound\<close>: the update is applied before the \<^verbatim>\<open>try\<close> block; its
  function cannot throw.
\<close>

definition joinRound ::
  "('id, 'r) sdk \<Rightarrow> 'r client_actions \<Rightarrow> account option \<Rightarrow> int \<Rightarrow> transaction_id
     \<Rightarrow> ('id, unit) prog" where
  "joinRound env client account roundId transactionId =
     (case account of
        None \<Rightarrow> throw (Error ''Account not available'')
      | Some a \<Rightarrow>
          bind (generateEntityId env account) (\<lambda>entityId'.
          bind (perform (ApplyOptimisticUpdate transactionId
                  (completes (joinRound_update a roundId entityId')))) (\<lambda>_.
          try_catch_finally
            (await (ActionJoinRound a roundId) (actions_joinRound client a roundId))
            (\<lambda>error.
               bind (perform (RevertOptimisticUpdate transactionId)) (\<lambda>_.
               throw error))
            (perform (ConfirmTransaction transactionId)))))"

text \<open>
  \<^verbatim>\<open>startRound\<close>; \<open>now\<close> is the value of \<^verbatim>\<open>Date.now()\<close> in the update
  and \<open>draft\<close> what the store holds when the update is applied. The update is applied
  before the \<^verbatim>\<open>try\<close> block, and its function can throw.
\<close>

definition startRound ::
  "('id, 'r) sdk \<Rightarrow> 'r client_actions \<Rightarrow> account option \<Rightarrow> int \<Rightarrow> transaction_id \<Rightarrow> int
     \<Rightarrow> 'id draft \<Rightarrow> ('id, unit) prog" where
  "startRound env client account roundId transactionId now draft =
     (case account of
        None \<Rightarrow> throw (Error ''Account not available'')
      | Some a \<Rightarrow>
          bind (applyUpdate transactionId (startRound_update env roundId now) draft) (\<lambda>_.
          try_catch_finally
            (await (ActionStartRound a roundId) (actions_startRound client a roundId))
            (\<lambda>error.
               bind (perform (RevertOptimisticUpdate transactionId)) (\<lambda>_.
               throw error))
            (perform (ConfirmTransaction transactionId))))"

subsection \<open>The store behind the hook\<close>

text \<open>
  Modelled from the spec: the optimistic-update store of the external SDK (the object
  \<^verbatim>\<open>state\<close> that \<^verbatim>\<open>useDojoStore\<close> returns), whose code is not in the
  repository. The spec says of it: "a local draft copy of entity state is patched; on
  failure the patch is reverted; in all cases (success, failure) the pending
  transaction marker is cleared." The store keeps the current draft and, for each
  pending transaction id, what reverting it restores. Reverting a transaction id that
  has no pending marker does nothing, and so does applying an update whose function
  throws.
\<close>

record 'id store =
  current :: "'id draft"
  pendingTransactions :: "transaction_id \<Rightarrow> 'id draft option"

definition applyOptimisticUpdate ::
  "transaction_id \<Rightarrow> ('id draft \<Rightarrow> error + 'id draft) \<Rightarrow> 'id store \<Rightarrow> 'id store" where
  "applyOptimisticUpdate transactionId updateFn s =
     (case updateFn (current s) of
        Inl e \<Rightarrow> s
      | Inr changed \<Rightarrow>
          s\<lparr>current := changed,
            pendingTransactions := (pendingTransactions s)(transactionId \<mapsto> current s)\<rparr>)"

definition revertOptimisticUpdate :: "transaction_id \<Rightarrow> 'id store \<Rightarrow> 'id store" where
  "revertOptimisticUpdate transactionId s =
     (case pendingTransactions s transactionId of
        None \<Rightarrow> s
      | Some before \<Rightarrow>
          s\<lparr>current := before,
            pendingTransactions := (pendingTransactions s)(transactionId := None)\<rparr>)"

definition confirmTransaction :: "transaction_id \<Rightarrow> 'id store \<Rightarrow> 'id store" where
  "confirmTransaction transactionId s =
     s\<lparr>pendingTransactions := (pendingTransactions s)(transactionId := None)\<rparr>"

text \<open>The effect of one logged call on the store; remote calls and the timer have none.\<close>

fun store_call :: "'id call \<Rightarrow> 'id store \<Rightarrow> 'id store" where
  "store_call (ApplyOptimisticUpdate t f) s = applyOptimisticUpdate t f s"
| "store_call (RevertOptimisticUpdate t) s = revertOptimisticUpdate t s"
| "store_call (ConfirmTransaction t) s = confirmTransaction t s"
| "store_call (ActionCreateRound a g) s = s"
| "store_call (Delay n) s = s"
| "store_call ActionGetRoundId s = s"
| "store_call (ActionJoinRound a r) s = s"
| "store_call (ActionStartRound a r) s = s"

text \<open>The store after the calls of a log, made in order.\<close>

definition replay :: "'id call list \<Rightarrow> 'id store \<Rightarrow> 'id store" where
  "replay calls s = fold store_call calls s"

text \<open>Classifying the calls of a log.\<close>

fun isConfirm :: "'id call \<Rightarrow> bool" where
  "isConfirm (ConfirmTransaction t) = True"
| "isConfirm c = False"

fun isStoreCall :: "'id call \<Rightarrow> bool" where
  "isStoreCall (ApplyOptimisticUpdate t f) = True"
| "isStoreCall (RevertOptimisticUpdate t) = True"
| "isStoreCall (ConfirmTransaction t) = True"
| "isStoreCall c = False"

subsection \<open>The challenge modal\<close>

text \<open>
  \<^verbatim>\<open>getRoundStatus\<close> returns an object with a text and a colour class. The field
  \<^verbatim>\<open>text\<close> carries a prime because the name is reserved in Isabelle.
\<close>

record round_status =
  text' :: string
  color :: string

text \<open>
  \<^verbatim>\<open>getRoundStatus(state)\<close>. The argument is \<open>Some s\<close> for an integer state code
  \<open>s\<close> (the integer \<^verbatim>\<open>BigInt(state.toString())\<close> denotes) and \<open>None\<close> for a
  missing state, on which \<^verbatim>\<open>state.toString()\<close> throws. \<^verbatim>\<open>Number\<close> of the
  integer is compared with \<^verbatim>\<open>0\<close>, \<^verbatim>\<open>1\<close> and \<^verbatim>\<open>2\<close>, which the
  conversion represents exactly and to which it maps no other integer. A state on which
  \<^verbatim>\<open>BigInt\<close> itself throws (a string that is no integer literal, a number that
  is not integral or that prints in exponent notation) is not a state code and is not
  modelled.
\<close>

definition getRoundStatus :: "int option \<Rightarrow> error + round_status" where
  "getRoundStatus roundState =
     (case roundState of
        None \<Rightarrow> Inl (TypeError ''toString'')
      | Some s \<Rightarrow>
          Inr (if s = 0 then \<lparr>text' = ''Waiting for players'', color = ''text-green-500''\<rparr>
               else if s = 1 then \<lparr>text' = ''In progress'', color = ''text-yellow-500''\<rparr>
               else if s = 2 then \<lparr>text' = ''Ended'', color = ''text-red-500''\<rparr>
               else \<lparr>text' = ''Unknown'', color = ''text-gray-500''\<rparr>))"

text \<open>
  \<^verbatim>\<open>Number(BigInt(round.round.state?.toString() || '0'))\<close> for a loaded round whose
  state is an integer \<open>Some s\<close> or is missing (\<open>None\<close>): a missing state reads as
  \<^verbatim>\<open>'0'\<close>.
\<close>

definition roundStateNumber :: "int option \<Rightarrow> int" where
  "roundStateNumber roundState = (case roundState of None \<Rightarrow> 0 | Some s \<Rightarrow> s)"

text \<open>
  The \<^verbatim>\<open>disabled\<close> attribute of the Join button:
  \<^verbatim>\<open>isLoading || isPlayer || Number(...) !== 0\<close> with
  \<^verbatim>\<open>isLoading = isJoining || isLoadingRound\<close>.
\<close>

definition joinDisabled :: "bool \<Rightarrow> bool \<Rightarrow> bool \<Rightarrow> int option \<Rightarrow> bool" where
  "joinDisabled isJoining isLoadingRound isPlayer roundState =
     ((isJoining \<or> isLoadingRound) \<or> isPlayer \<or> roundStateNumber roundState \<noteq> 0)"

text \<open>The label of the Join button.\<close>

definition joinLabel :: "bool \<Rightarrow> bool \<Rightarrow> int option \<Rightarrow> string" where
  "joinLabel isJoining isPlayer roundState =
     (if isJoining then ''Joining...''
      else if isPlayer then ''Already Joined''
      else if roundStateNumber roundState \<noteq> 0 then ''Round Not Available''
      else ''Join Challenge'')"

text \<open>
  The button beside Cancel, with its \<^verbatim>\<open>disabled\<close> attribute and its label. The
  Load button calls \<^verbatim>\<open>handleQuery\<close>, the Join button \<^verbatim>\<open>handleJoin\<close>.
\<close>

datatype footer_button =
    LoadChallengeButton bool string
  | JoinButton bool string
  | NoButton

text \<open>What one rendering shows: the status of the round card, if the card is shown, and the button.\<close>

record modal_view =
  status :: "round_status option"
  button :: footer_button

text \<open>A \<^verbatim>\<open>bigint | null\<close> in a condition: \<^verbatim>\<open>null\<close> and \<^verbatim>\<open>0n\<close> are falsy.\<close>

definition truthy :: "int option \<Rightarrow> bool" where
  "truthy roundId = (case roundId of None \<Rightarrow> False | Some k \<Rightarrow> k \<noteq> 0)"

text \<open>
  One rendering of \<^verbatim>\<open>ChallengeModal\<close>, as far as the round's state decides it.
  \<open>loaded\<close> is \<^verbatim>\<open>round\<close> of \<^verbatim>\<open>useRoundQuery\<close>: \<open>None\<close> when no round
  is loaded, otherwise the round's \<^verbatim>\<open>round.round.state\<close>, itself an integer or
  missing. The expressions are evaluated in the order of the JSX: the card (shown when
  a round is loaded and \<^verbatim>\<open>isLoadingRound\<close> is false) calls
  \<^verbatim>\<open>getRoundStatus(round.round.state)\<close>, and a throw there ends the rendering
  before the buttons. The input field, the error and loading notices and the other
  lines of the card (wager, participants, payout, creator) are left out; the round's
  other fields are taken as present.
\<close>

definition ChallengeModal ::
  "int option option \<Rightarrow> int option \<Rightarrow> bool \<Rightarrow> bool \<Rightarrow> bool \<Rightarrow> error + modal_view" where
  "ChallengeModal loaded roundId isJoining isLoadingRound isPlayer =
     (let isLoading = (isJoining \<or> isLoadingRound);
          card = (case loaded of
                    None \<Rightarrow> Inr None
                  | Some roundState \<Rightarrow>
                      if \<not> isLoadingRound
                      then (case getRoundStatus roundState of
                              Inl e \<Rightarrow> Inl e
                            | Inr st \<Rightarrow> Inr (Some st))
                      else Inr None)
      in case card of
           Inl e \<Rightarrow> Inl e
         | Inr shown \<Rightarrow>
             Inr \<lparr>status = shown,
                  button =
                    (if loaded = None \<and> truthy roundId
                     then LoadChallengeButton (isLoading \<or> \<not> truthy roundId)
                            (if isLoadingRound then ''Loading...'' else ''Load Challenge'')
                     else (case loaded of
                             Some roundState \<Rightarrow>
                               JoinButton (joinDisabled isJoining isLoadingRound isPlayer roundState)
                                 (joinLabel isJoining isPlayer roundState)
                           | None \<Rightarrow> NoButton))\<rparr>)"

subsection \<open>Concrete instances used in the examples\<close>

text \<open>
  An SDK whose entity id is the key list itself, whose \<open>BigInt\<close> reads the two
  addresses below, and whose round-id result is the id.
\<close>

definition example_sdk :: "(int list, int) sdk" where
  "example_sdk =
     \<lparr>getEntityIdFromKeys = (\<lambda>keys. keys),
      BigInt = (\<lambda>s. if s = ''0x1'' then Inr 1
                     else if s = ''0x2'' then Inr 2
                     else Inl (SyntaxError ''BigInt'')),
      roundIdOfResult = (\<lambda>r. if r < 0 then Inl (SyntaxError ''BigInt'') else Inr r)\<rparr>"

definition alice :: account where
  "alice = \<lparr>address = ''0x1''\<rparr>"

text \<open>An account whose address \<open>BigInt\<close> rejects.\<close>

definition no_number :: account where
  "no_number = \<lparr>address = ''not a number''\<rparr>"

text \<open>A client whose calls all succeed; the contract reports round id 5.\<close>

definition client_ok :: "int client_actions" where
  "client_ok =
     \<lparr>actions_createRound = (\<lambda>a g. Inr ()),
      actions_getRoundId = Inr 5,
      actions_joinRound = (\<lambda>a r. Inr ()),
      actions_startRound = (\<lambda>a r. Inr ())\<rparr>"

text \<open>A client whose calls all reject.\<close>

definition client_down :: "int client_actions" where
  "client_down =
     \<lparr>actions_createRound = (\<lambda>a g. Inl (Error ''rejected'')),
      actions_getRoundId = Inl (Error ''rejected''),
      actions_joinRound = (\<lambda>a r. Inl (Error ''rejected'')),
      actions_startRound = (\<lambda>a r. Inl (Error ''rejected''))\<rparr>"

text \<open>A client on which only the round-id fetch rejects.\<close>

definition client_no_id :: "int client_actions" where
  "client_no_id =
     \<lparr>actions_createRound = (\<lambda>a g. Inr ()),
      actions_getRoundId = Inl (Error ''rejected''),
      actions_joinRound = (\<lambda>a r. Inr ()),
      actions_startRound = (\<lambda>a r. Inr ())\<rparr>"

text \<open>A client whose round-id result cannot be converted.\<close>

definition client_bad_id :: "int client_actions" where
  "client_bad_id =
     \<lparr>actions_createRound = (\<lambda>a g. Inr ()),
      actions_getRoundId = Inr (- 1),
      actions_joinRound = (\<lambda>a r. Inr ()),
      actions_startRound = (\<lambda>a r. Inr ())\<rparr>"

text \<open>The draft with no entity, and the store that holds it with nothing pending.\<close>

definition empty_draft :: "int list draft" where
  "empty_draft = \<lparr>entities = (\<lambda>i. None)\<rparr>"

definition empty_store :: "int list store" where
  "empty_store = \<lparr>current = empty_draft, pendingTransactions = (\<lambda>t. None)\<rparr>"

text \<open>A draft in which the id of a coming event entity is already taken.\<close>

definition occupied_draft :: "int list draft" where
  "occupied_draft =
     \<lparr>entities = (\<lambda>i. if i = [5, 1001] then Some \<lparr>entityId = [5, 1001], models = None\<rparr> else None)\<rparr>"

text \<open>A draft whose entity for round 7 has a \<^verbatim>\<open>Rounds\<close> model without \<^verbatim>\<open>round\<close>.\<close>

definition roundless_draft :: "int list draft" where
  "roundless_draft =
     \<lparr>entities = (\<lambda>i. if i = [7]
        then Some \<lparr>entityId = [7],
                   models = Some \<lparr>lyricsflip = Some
                     \<lparr>Rounds = Some \<lparr>round_id = 7, round = None\<rparr>,
                      RoundPlayer = None, RoundCreated = None\<rparr>\<rparr>\<rparr>
        else None)\<rparr>"

text \<open>The draft after alice created round 7: the round entity and its event entity.\<close>

definition round_seven_draft :: "int list draft" where
  "round_seven_draft = createRound_update example_sdk alice ''Rock'' 7 500 501 empty_draft"

section \<open>Properties\<close>

lemmas prog_defs = return_def throw_def bind_def perform_def await_def eval_expr_def
  try_catch_finally_def

subsection \<open>Laws of the effect log\<close>

lemma try_catch_finally_returns:
  "snd body = Inr x \<Longrightarrow>
   try_catch_finally body handler (perform c) = (fst body @ [c], Inr x)"
  by (cases body) (simp add: try_catch_finally_def perform_def)

lemma try_catch_finally_throws:
  "snd body = Inl e \<Longrightarrow>
   try_catch_finally body handler (perform c) =
     (fst body @ fst (handler e) @ [c], snd (handler e))"
  by (simp add: try_catch_finally_def perform_def)

lemma bind_value:
  "bind ([], Inr x) f = f x"
  by (simp add: bind_def)

lemma bind_perform:
  "bind (perform c) f = (c # fst (f ()), snd (f ()))"
  by (simp add: bind_def perform_def)

lemma bind_returned:
  "bind (l, Inr x) f = (l @ fst (f x), snd (f x))"
  by (simp add: bind_def)

lemma createRound_body:
  "bind (await (ActionCreateRound a g) (actions_createRound client a g)) (\<lambda>txResult.
   bind (perform (Delay 2000)) (\<lambda>_.
   bind (await ActionGetRoundId (actions_getRoundId client)) (\<lambda>roundIdResult.
   bind (eval_expr (roundIdOfResult env roundIdResult)) (\<lambda>actualRoundId.
   bind (perform (ApplyOptimisticUpdate tx
           (completes (createRound_update env a g actualRoundId now now')))) (\<lambda>_.
   return actualRoundId))))) =
   (case actions_createRound client a g of
      Inl e \<Rightarrow> ([ActionCreateRound a g], Inl e)
    | Inr u \<Rightarrow>
        (case actions_getRoundId client of
           Inl e \<Rightarrow> ([ActionCreateRound a g, Delay 2000, ActionGetRoundId], Inl e)
         | Inr r \<Rightarrow>
             (case roundIdOfResult env r of
                Inl e \<Rightarrow> ([ActionCreateRound a g, Delay 2000, ActionGetRoundId], Inl e)
              | Inr actualRoundId \<Rightarrow>
                  ([ActionCreateRound a g, Delay 2000, ActionGetRoundId,
                    ApplyOptimisticUpdate tx
                      (completes (createRound_update env a g actualRoundId now now'))],
                   Inr actualRoundId))))"
  by (simp add: bind_def await_def perform_def eval_expr_def return_def split: sum.split)

subsection \<open>Failure of a remote call\<close>

text \<open>
  C1: for each of \<^verbatim>\<open>createRound\<close>, \<^verbatim>\<open>joinRound\<close> and
  \<^verbatim>\<open>startRound\<close>, when the remote client action throws \<open>e\<close>, the operation
  calls \<^verbatim>\<open>revertOptimisticUpdate\<close> with its transaction id and then throws the
  same \<open>e\<close>; the log holds the failed action once and no remote call after it, so
  nothing is retried. For \<^verbatim>\<open>createRound\<close> the remote action is either the
  create call or the round-id fetch. \<^verbatim>\<open>startRound\<close> reaches its remote action
  when its update function did not throw on the store's draft \<open>d\<close>.
\<close>

theorem remote_failure_reverts_and_rethrows:
  "(actions_createRound client a g = Inl e \<longrightarrow>
      createRound env client (Some a) g tx now now' =
        ([ActionCreateRound a g, RevertOptimisticUpdate tx, ConfirmTransaction tx], Inl e))
   \<and> (actions_createRound client a g = Inr u \<and> actions_getRoundId client = Inl e \<longrightarrow>
      createRound env client (Some a) g tx now now' =
        ([ActionCreateRound a g, Delay 2000, ActionGetRoundId,
          RevertOptimisticUpdate tx, ConfirmTransaction tx], Inl e))
   \<and> (BigInt env (address a) = Inr k \<and> actions_joinRound client a roundId = Inl e \<longrightarrow>
      joinRound env client (Some a) roundId tx =
        ([ApplyOptimisticUpdate tx (completes (joinRound_update a roundId (getEntityIdFromKeys env [k]))),
          ActionJoinRound a roundId,
          RevertOptimisticUpdate tx, ConfirmTransaction tx], Inl e))
   \<and> (startRound_update env roundId now d = Inr d'
      \<and> actions_startRound client a roundId = Inl e \<longrightarrow>
      startRound env client (Some a) roundId tx now d =
        ([ApplyOptimisticUpdate tx (startRound_update env roundId now),
          ActionStartRound a roundId,
          RevertOptimisticUpdate tx, ConfirmTransaction tx], Inl e))"
proof (intro conjI impI)
  assume "actions_createRound client a g = Inl e"
  then show "createRound env client (Some a) g tx now now' =
      ([ActionCreateRound a g, RevertOptimisticUpdate tx, ConfirmTransaction tx], Inl e)"
    unfolding createRound_def createRound_body
    by (simp add: try_catch_finally_throws bind_perform throw_def)
next
  assume "actions_createRound client a g = Inr u \<and> actions_getRoundId client = Inl e"
  then show "createRound env client (Some a) g tx now now' =
      ([ActionCreateRound a g, Delay 2000, ActionGetRoundId,
        RevertOptimisticUpdate tx, ConfirmTransaction tx], Inl e)"
    unfolding createRound_def createRound_body
    by (simp add: try_catch_finally_throws bind_perform throw_def)
next
  assume h: "BigInt env (address a) = Inr k \<and> actions_joinRound client a roundId = Inl e"
  then have "generateEntityId env (Some a) = ([], Inr (getEntityIdFromKeys env [k]))"
    by (simp add: generateEntityId_def bind_def eval_expr_def return_def)
  moreover from h have
    "snd (await (ActionJoinRound a roundId) (actions_joinRound client a roundId)) = Inl e"
    by (simp add: await_def)
  ultimately show "joinRound env client (Some a) roundId tx =
      ([ApplyOptimisticUpdate tx (completes (joinRound_update a roundId (getEntityIdFromKeys env [k]))),
        ActionJoinRound a roundId,
        RevertOptimisticUpdate tx, ConfirmTransaction tx], Inl e)"
    by (simp add: joinRound_def bind_value try_catch_finally_throws bind_perform throw_def await_def)
next
  assume h: "startRound_update env roundId now d = Inr d'
      \<and> actions_startRound client a roundId = Inl e"
  then have applied:
    "applyUpdate tx (startRound_update env roundId now) d =
       ([ApplyOptimisticUpdate tx (startRound_update env roundId now)], Inr ())"
    by (simp add: applyUpdate_def)
  from h have
    "snd (await (ActionStartRound a roundId) (actions_startRound client a roundId)) = Inl e"
    by (simp add: await_def)
  with applied show "startRound env client (Some a) roundId tx now d =
      ([ApplyOptimisticUpdate tx (startRound_update env roundId now),
        ActionStartRound a roundId,
        RevertOptimisticUpdate tx, ConfirmTransaction tx], Inl e)"
    by (simp add: startRound_def bind_returned try_catch_finally_throws bind_perform throw_def
        await_def)
qed

text \<open>
  The theorem at a client whose calls reject, and at one where only the round-id fetch
  rejects.
\<close>

theorem remote_failure_reverts_and_rethrows_witness:
  "actions_createRound client_down alice ''Rock'' = Inl (Error ''rejected'')
   \<and> createRound example_sdk client_down (Some alice) ''Rock'' ''tx-1'' 1000 1001 =
        ([ActionCreateRound alice ''Rock'',
          RevertOptimisticUpdate ''tx-1'', ConfirmTransaction ''tx-1''], Inl (Error ''rejected''))
   \<and> actions_createRound client_no_id alice ''Rock'' = Inr ()
   \<and> actions_getRoundId client_no_id = Inl (Error ''rejected'')
   \<and> createRound example_sdk client_no_id (Some alice) ''Rock'' ''tx-1'' 1000 1001 =
        ([ActionCreateRound alice ''Rock'', Delay 2000, ActionGetRoundId,
          RevertOptimisticUpdate ''tx-1'', ConfirmTransaction ''tx-1''], Inl (Error ''rejected''))
   \<and> BigInt example_sdk (address alice) = Inr 1
   \<and> actions_joinRound client_down alice 7 = Inl (Error ''rejected'')
   \<and> joinRound example_sdk client_down (Some alice) 7 ''tx-1'' =
        ([ApplyOptimisticUpdate ''tx-1'' (completes (joinRound_update alice 7 [1])),
          ActionJoinRound alice 7,
          RevertOptimisticUpdate ''tx-1'', ConfirmTransaction ''tx-1''], Inl (Error ''rejected''))
   \<and> startRound_update example_sdk 7 1000 empty_draft = Inr empty_draft
   \<and> actions_startRound client_down alice 7 = Inl (Error ''rejected'')
   \<and> startRound example_sdk client_down (Some alice) 7 ''tx-1'' 1000 empty_draft =
        ([ApplyOptimisticUpdate ''tx-1'' (startRound_update example_sdk 7 1000),
          ActionStartRound alice 7,
          RevertOptimisticUpdate ''tx-1'', ConfirmTransaction ''tx-1''], Inl (Error ''rejected''))"
proof -
  have c: "actions_createRound client_down alice ''Rock'' = Inl (Error ''rejected'')"
    and j: "actions_joinRound client_down alice 7 = Inl (Error ''rejected'')"
    and s: "actions_startRound client_down alice 7 = Inl (Error ''rejected'')"
    by (simp_all add: client_down_def)
  have n: "actions_createRound client_no_id alice ''Rock'' = Inr ()"
    and i: "actions_getRoundId client_no_id = Inl (Error ''rejected'')"
    by (simp_all add: client_no_id_def)
  have b: "BigInt example_sdk (address alice) = Inr 1"
    and h: "getEntityIdFromKeys example_sdk [1] = [1]"
    by (simp_all add: example_sdk_def alice_def)
  have u: "startRound_update example_sdk 7 1000 empty_draft = Inr empty_draft"
    by (simp add: startRound_update_def empty_draft_def)
  note down = remote_failure_reverts_and_rethrows
    [where client = client_down and a = alice and g = "''Rock''" and e = "Error ''rejected''"
       and env = example_sdk and tx = "''tx-1''" and k = 1 and roundId = 7
       and now = 1000 and d = empty_draft and d' = empty_draft]
  note no_id = remote_failure_reverts_and_rethrows
    [where client = client_no_id and a = alice and g = "''Rock''" and e = "Error ''rejected''"
       and env = example_sdk and tx = "''tx-1''" and u = "()"]
  from down c j s b h u no_id n i show ?thesis by simp
qed

subsection \<open>Clearing the pending transaction\<close>

lemma createRound_confirm:
  "filter isConfirm (fst (createRound env client (Some a) g tx now now')) = [ConfirmTransaction tx]
   \<and> last (fst (createRound env client (Some a) g tx now now')) = ConfirmTransaction tx"
  by (simp add: createRound_def prog_defs split: sum.split)

lemma joinRound_confirm:
  "BigInt env (address a) = Inr k \<Longrightarrow>
   filter isConfirm (fst (joinRound env client (Some a) roundId tx)) = [ConfirmTransaction tx]
   \<and> last (fst (joinRound env client (Some a) roundId tx)) = ConfirmTransaction tx"
  by (simp add: joinRound_def generateEntityId_def prog_defs split: sum.split)

lemma startRound_confirm:
  "startRound_update env roundId now d = Inr d' \<Longrightarrow>
   filter isConfirm (fst (startRound env client (Some a) roundId tx now d)) =
     [ConfirmTransaction tx]
   \<and> last (fst (startRound env client (Some a) roundId tx now d)) = ConfirmTransaction tx"
  by (simp add: startRound_def applyUpdate_def prog_defs split: sum.split)

lemma no_account:
  "createRound env client None g tx now now' = ([], Inl (Error ''Account not available''))"
  "joinRound env client None roundId tx = ([], Inl (Error ''Account not available''))"
  "startRound env client None roundId tx now d = ([], Inl (Error ''Account not available''))"
  by (simp_all add: createRound_def joinRound_def startRound_def throw_def)

lemma joinRound_bad_address:
  "BigInt env (address a) = Inl e \<Longrightarrow> joinRound env client (Some a) roundId tx = ([], Inl e)"
  by (simp add: joinRound_def generateEntityId_def prog_defs)

lemma startRound_update_throws:
  "startRound_update env roundId now d = Inl e \<Longrightarrow>
   startRound env client (Some a) roundId tx now d =
     ([ApplyOptimisticUpdate tx (startRound_update env roundId now)], Inl e)"
  by (simp add: startRound_def applyUpdate_def bind_def)

text \<open>
  C2, as stated, fails: without an account \<^verbatim>\<open>createRound\<close> ends with a thrown
  error and has not called \<^verbatim>\<open>confirmTransaction\<close> at all.
\<close>

theorem confirmTransaction_every_path_counterexample:
  "filter isConfirm (fst (createRound example_sdk client_ok None ''Rock'' ''tx-1'' 1000 1001))
     \<noteq> [ConfirmTransaction ''tx-1'']"
  by (simp add: createRound_def throw_def)

text \<open>
  C2, amended: an execution of \<^verbatim>\<open>createRound\<close>, \<^verbatim>\<open>joinRound\<close> or
  \<^verbatim>\<open>startRound\<close> that enters its \<^verbatim>\<open>try\<close> block calls
  \<^verbatim>\<open>confirmTransaction\<close> exactly once, with the operation's transaction id and as
  its last call, whether the operation returns or throws. The \<^verbatim>\<open>try\<close> block is
  entered when an account is available and, for \<^verbatim>\<open>joinRound\<close>,
  \<^verbatim>\<open>BigInt(account.address)\<close> did not throw, and, for \<^verbatim>\<open>startRound\<close>, the
  update function did not throw on the store's draft. An execution that ends before
  the \<^verbatim>\<open>try\<close> block throws and never calls \<^verbatim>\<open>confirmTransaction\<close>:
  without an account, or in \<^verbatim>\<open>joinRound\<close> with an address that does not
  convert, it has made no call at all; in \<^verbatim>\<open>startRound\<close> with an update
  function that throws, its one call is that \<^verbatim>\<open>applyOptimisticUpdate\<close>.
\<close>

theorem confirmTransaction_once_in_try:
  "filter isConfirm (fst (createRound env client (Some a) g tx now now')) = [ConfirmTransaction tx]
   \<and> last (fst (createRound env client (Some a) g tx now now')) = ConfirmTransaction tx
   \<and> (BigInt env (address a) = Inr k \<longrightarrow>
        filter isConfirm (fst (joinRound env client (Some a) roundId tx)) = [ConfirmTransaction tx]
        \<and> last (fst (joinRound env client (Some a) roundId tx)) = ConfirmTransaction tx)
   \<and> (startRound_update env roundId now d = Inr d' \<longrightarrow>
        filter isConfirm (fst (startRound env client (Some a) roundId tx now d)) =
          [ConfirmTransaction tx]
        \<and> last (fst (startRound env client (Some a) roundId tx now d)) = ConfirmTransaction tx)
   \<and> createRound env client None g tx now now' = ([], Inl (Error ''Account not available''))
   \<and> joinRound env client None roundId tx = ([], Inl (Error ''Account not available''))
   \<and> startRound env client None roundId tx now d = ([], Inl (Error ''Account not available''))
   \<and> (BigInt env (address a) = Inl e \<longrightarrow>
        joinRound env client (Some a) roundId tx = ([], Inl e))
   \<and> (startRound_update env roundId now d = Inl e \<longrightarrow>
        startRound env client (Some a) roundId tx now d =
          ([ApplyOptimisticUpdate tx (startRound_update env roundId now)], Inl e))"
  using createRound_confirm [of env client a g tx now now']
    joinRound_confirm [of env a k client roundId tx]
    startRound_confirm [of env roundId now d d' client a tx]
    joinRound_bad_address [of env a e client roundId tx]
    startRound_update_throws [of env roundId now d e client a tx]
  by (simp add: no_account)

text \<open>
  The theorem at an account whose address converts, with a client that rejects; at an
  account whose address does not convert; and at \<^verbatim>\<open>startRound\<close> on a draft
  where the update completes and on one where it throws.
\<close>

theorem confirmTransaction_once_in_try_witness:
  "BigInt example_sdk (address alice) = Inr 1
   \<and> filter isConfirm (fst (joinRound example_sdk client_down (Some alice) 7 ''tx-1'')) =
       [ConfirmTransaction ''tx-1'']
   \<and> last (fst (joinRound example_sdk client_down (Some alice) 7 ''tx-1'')) =
       ConfirmTransaction ''tx-1''
   \<and> filter isConfirm (fst (createRound example_sdk client_ok (Some alice) ''Rock'' ''tx-1'' 1000 1001)) =
       [ConfirmTransaction ''tx-1'']
   \<and> BigInt example_sdk (address no_number) = Inl (SyntaxError ''BigInt'')
   \<and> joinRound example_sdk client_ok (Some no_number) 7 ''tx-1'' = ([], Inl (SyntaxError ''BigInt''))
   \<and> startRound_update example_sdk 7 1000 empty_draft = Inr empty_draft
   \<and> filter isConfirm (fst (startRound example_sdk client_down (Some alice) 7 ''tx-1'' 1000 empty_draft)) =
       [ConfirmTransaction ''tx-1'']
   \<and> startRound_update example_sdk 7 1000 roundless_draft = Inl (TypeError ''state'')
   \<and> startRound example_sdk client_ok (Some alice) 7 ''tx-1'' 1000 roundless_draft =
       ([ApplyOptimisticUpdate ''tx-1'' (startRound_update example_sdk 7 1000)],
        Inl (TypeError ''state''))"
proof -
  have b: "BigInt example_sdk (address alice) = Inr 1"
    by (simp add: example_sdk_def alice_def)
  have n: "BigInt example_sdk (address no_number) = Inl (SyntaxError ''BigInt'')"
    by (simp add: example_sdk_def no_number_def)
  have u: "startRound_update example_sdk 7 1000 empty_draft = Inr empty_draft"
    by (simp add: startRound_update_def empty_draft_def)
  have r: "startRound_update example_sdk 7 1000 roundless_draft = Inl (TypeError ''state'')"
    by (simp add: startRound_update_def roundless_draft_def example_sdk_def roundsOf_def
        setStarted_def)
  note t1 = confirmTransaction_once_in_try
    [where env = example_sdk and a = alice and k = 1 and client = client_down and roundId = 7
       and tx = "''tx-1''" and now = 1000 and d = empty_draft and d' = empty_draft]
  note t2 = confirmTransaction_once_in_try
    [where env = example_sdk and a = alice and client = client_ok and g = "''Rock''"
       and tx = "''tx-1''" and now = 1000 and now' = 1001]
  note t3 = confirmTransaction_once_in_try
    [where env = example_sdk and a = no_number and e = "SyntaxError ''BigInt''"
       and client = client_ok and roundId = 7 and tx = "''tx-1''"]
  note t4 = confirmTransaction_once_in_try
    [where env = example_sdk and a = alice and e = "TypeError ''state''"
       and client = client_ok and roundId = 7 and tx = "''tx-1''" and now = 1000
       and d = roundless_draft]
  from t1 b have
    "filter isConfirm (fst (joinRound example_sdk client_down (Some alice) 7 ''tx-1'')) =
       [ConfirmTransaction ''tx-1'']
     \<and> last (fst (joinRound example_sdk client_down (Some alice) 7 ''tx-1'')) =
       ConfirmTransaction ''tx-1''"
    by blast
  moreover from t1 u have
    "filter isConfirm (fst (startRound example_sdk client_down (Some alice) 7 ''tx-1'' 1000 empty_draft)) =
       [ConfirmTransaction ''tx-1'']"
    by blast
  moreover from t2 have
    "filter isConfirm (fst (createRound example_sdk client_ok (Some alice) ''Rock'' ''tx-1'' 1000 1001)) =
       [ConfirmTransaction ''tx-1'']"
    by blast
  moreover from t3 n have
    "joinRound example_sdk client_ok (Some no_number) 7 ''tx-1'' = ([], Inl (SyntaxError ''BigInt''))"
    by blast
  moreover from t4 r have
    "startRound example_sdk client_ok (Some alice) 7 ''tx-1'' 1000 roundless_draft =
       ([ApplyOptimisticUpdate ''tx-1'' (startRound_update example_sdk 7 1000)],
        Inl (TypeError ''state''))"
    by blast
  ultimately show ?thesis using b n u r by simp
qed

subsection \<open>A failed \<^verbatim>\<open>createRound\<close> and the store\<close>

lemma confirm_revert_unregistered:
  "pendingTransactions s tx = None \<Longrightarrow>
   confirmTransaction tx (revertOptimisticUpdate tx s) = s"
  by (simp add: confirmTransaction_def revertOptimisticUpdate_def fun_upd_idem)

text \<open>
  C9: when \<^verbatim>\<open>createRound\<close> fails because the remote create call, the round-id
  fetch or the extraction of the id throws \<open>e\<close>, it throws \<open>e\<close> and its only
  store calls are \<^verbatim>\<open>revertOptimisticUpdate\<close> and \<^verbatim>\<open>confirmTransaction\<close>
  with its transaction id: no update was applied under that id, and a store in which the
  id is not pending is the same after the calls as before. The update is applied only
  in the remaining case, after both remote calls and the extraction succeeded.
\<close>

theorem createRound_failure_leaves_store:
  "(actions_createRound client a g = Inl e
    \<or> (actions_createRound client a g = Inr u \<and> actions_getRoundId client = Inl e)
    \<or> (actions_createRound client a g = Inr u \<and> actions_getRoundId client = Inr r
        \<and> roundIdOfResult env r = Inl e) \<longrightarrow>
      snd (createRound env client (Some a) g tx now now') = Inl e
      \<and> filter isStoreCall (fst (createRound env client (Some a) g tx now now')) =
          [RevertOptimisticUpdate tx, ConfirmTransaction tx]
      \<and> (pendingTransactions s tx = None \<longrightarrow>
          replay (fst (createRound env client (Some a) g tx now now')) s = s))
   \<and> (actions_createRound client a g = Inr u \<and> actions_getRoundId client = Inr r
      \<and> roundIdOfResult env r = Inr actualRoundId \<longrightarrow>
      createRound env client (Some a) g tx now now' =
        ([ActionCreateRound a g, Delay 2000, ActionGetRoundId,
          ApplyOptimisticUpdate tx (completes (createRound_update env a g actualRoundId now now')),
          ConfirmTransaction tx], Inr actualRoundId))"
proof (intro conjI impI)
  assume "actions_createRound client a g = Inr u \<and> actions_getRoundId client = Inr r
      \<and> roundIdOfResult env r = Inr actualRoundId"
  then show "createRound env client (Some a) g tx now now' =
        ([ActionCreateRound a g, Delay 2000, ActionGetRoundId,
          ApplyOptimisticUpdate tx (completes (createRound_update env a g actualRoundId now now')),
          ConfirmTransaction tx], Inr actualRoundId)"
    unfolding createRound_def createRound_body
    by (simp add: try_catch_finally_returns)
next
  assume failed: "actions_createRound client a g = Inl e
    \<or> (actions_createRound client a g = Inr u \<and> actions_getRoundId client = Inl e)
    \<or> (actions_createRound client a g = Inr u \<and> actions_getRoundId client = Inr r
        \<and> roundIdOfResult env r = Inl e)"
  then consider
    (create) "createRound env client (Some a) g tx now now' =
      ([ActionCreateRound a g, RevertOptimisticUpdate tx, ConfirmTransaction tx], Inl e)"
  | (fetch) "createRound env client (Some a) g tx now now' =
      ([ActionCreateRound a g, Delay 2000, ActionGetRoundId,
        RevertOptimisticUpdate tx, ConfirmTransaction tx], Inl e)"
    unfolding createRound_def createRound_body
    by (auto simp add: try_catch_finally_throws bind_perform throw_def)
  note log = this
  from log show "snd (createRound env client (Some a) g tx now now') = Inl e"
    by cases simp_all
  from log show "filter isStoreCall (fst (createRound env client (Some a) g tx now now')) =
      [RevertOptimisticUpdate tx, ConfirmTransaction tx]"
    by cases simp_all
  assume "pendingTransactions s tx = None"
  with log show "replay (fst (createRound env client (Some a) g tx now now')) s = s"
    by cases (simp_all add: replay_def confirm_revert_unregistered)
qed

text \<open>
  The theorem at a client whose create call rejects, at one whose round-id result does
  not convert, and at one that succeeds.
\<close>

theorem createRound_failure_leaves_store_witness:
  "actions_createRound client_down alice ''Rock'' = Inl (Error ''rejected'')
   \<and> snd (createRound example_sdk client_down (Some alice) ''Rock'' ''tx-1'' 1000 1001) =
       Inl (Error ''rejected'')
   \<and> filter isStoreCall
         (fst (createRound example_sdk client_down (Some alice) ''Rock'' ''tx-1'' 1000 1001)) =
       [RevertOptimisticUpdate ''tx-1'', ConfirmTransaction ''tx-1'']
   \<and> pendingTransactions empty_store ''tx-1'' = None
   \<and> replay (fst (createRound example_sdk client_down (Some alice) ''Rock'' ''tx-1'' 1000 1001))
         empty_store = empty_store
   \<and> actions_createRound client_bad_id alice ''Rock'' = Inr ()
   \<and> actions_getRoundId client_bad_id = Inr (- 1)
   \<and> roundIdOfResult example_sdk (- 1) = Inl (SyntaxError ''BigInt'')
   \<and> snd (createRound example_sdk client_bad_id (Some alice) ''Rock'' ''tx-1'' 1000 1001) =
       Inl (SyntaxError ''BigInt'')
   \<and> replay (fst (createRound example_sdk client_bad_id (Some alice) ''Rock'' ''tx-1'' 1000 1001))
         empty_store = empty_store
   \<and> actions_createRound client_ok alice ''Rock'' = Inr ()
   \<and> actions_getRoundId client_ok = Inr 5
   \<and> roundIdOfResult example_sdk 5 = Inr 5
   \<and> createRound example_sdk client_ok (Some alice) ''Rock'' ''tx-1'' 1000 1001 =
        ([ActionCreateRound alice ''Rock'', Delay 2000, ActionGetRoundId,
          ApplyOptimisticUpdate ''tx-1'' (completes (createRound_update example_sdk alice ''Rock'' 5 1000 1001)),
          ConfirmTransaction ''tx-1''], Inr 5)"
proof -
  have down: "actions_createRound client_down alice ''Rock'' = Inl (Error ''rejected'')"
    by (simp add: client_down_def)
  have bad: "actions_createRound client_bad_id alice ''Rock'' = Inr ()"
    "actions_getRoundId client_bad_id = Inr (- 1)"
    "roundIdOfResult example_sdk (- 1) = Inl (SyntaxError ''BigInt'')"
    by (simp_all add: client_bad_id_def example_sdk_def)
  have ok: "actions_createRound client_ok alice ''Rock'' = Inr ()"
    "actions_getRoundId client_ok = Inr 5"
    "roundIdOfResult example_sdk 5 = Inr 5"
    by (simp_all add: client_ok_def example_sdk_def)
  have fresh: "pendingTransactions empty_store ''tx-1'' = None"
    by (simp add: empty_store_def)
  note t1 = createRound_failure_leaves_store
    [where client = client_down and a = alice and g = "''Rock''" and e = "Error ''rejected''"
       and env = example_sdk and tx = "''tx-1''" and s = empty_store
       and now = 1000 and now' = 1001]
  note t2 = createRound_failure_leaves_store
    [where client = client_bad_id and a = alice and g = "''Rock''" and e = "SyntaxError ''BigInt''"
       and env = example_sdk and tx = "''tx-1''" and s = empty_store and u = "()" and r = "- 1"
       and now = 1000 and now' = 1001]
  note t3 = createRound_failure_leaves_store
    [where client = client_ok and a = alice and g = "''Rock''"
       and env = example_sdk and tx = "''tx-1''" and u = "()" and r = 5 and actualRoundId = 5
       and now = 1000 and now' = 1001]
  from t1 down fresh have
    "snd (createRound example_sdk client_down (Some alice) ''Rock'' ''tx-1'' 1000 1001) =
       Inl (Error ''rejected'')
     \<and> filter isStoreCall
         (fst (createRound example_sdk client_down (Some alice) ''Rock'' ''tx-1'' 1000 1001)) =
       [RevertOptimisticUpdate ''tx-1'', ConfirmTransaction ''tx-1'']
     \<and> replay (fst (createRound example_sdk client_down (Some alice) ''Rock'' ''tx-1'' 1000 1001))
         empty_store = empty_store"
    by blast
  moreover from t2 bad fresh have
    "snd (createRound example_sdk client_bad_id (Some alice) ''Rock'' ''tx-1'' 1000 1001) =
       Inl (SyntaxError ''BigInt'')
     \<and> replay (fst (createRound example_sdk client_bad_id (Some alice) ''Rock'' ''tx-1'' 1000 1001))
         empty_store = empty_store"
    by blast
  moreover from t3 ok have
    "createRound example_sdk client_ok (Some alice) ''Rock'' ''tx-1'' 1000 1001 =
        ([ActionCreateRound alice ''Rock'', Delay 2000, ActionGetRoundId,
          ApplyOptimisticUpdate ''tx-1'' (completes (createRound_update example_sdk alice ''Rock'' 5 1000 1001)),
          ConfirmTransaction ''tx-1''], Inr 5)"
    by blast
  ultimately show ?thesis using down bad ok fresh by simp
qed

subsection \<open>The status text\<close>


subsection \<open>The Join button\<close>

text \<open>
  C3: for every loaded round, a rendering shows an enabled Join button (whose click
  runs \<^verbatim>\<open>handleJoin\<close>) only if the round's state is 0 and the user is not
  already a player; the label is then "Join Challenge". When the state is another
  integer or \<^verbatim>\<open>isPlayer\<close> holds, the Join button is shown disabled. A loaded
  round whose state is missing never gets an enabled button either: the rendering
  throws in \<^verbatim>\<open>getRoundStatus\<close>, or, while the round is loading, shows the
  button disabled.
\<close>

theorem join_enabled_only_waiting:
  "(ChallengeModal loaded roundId isJoining isLoadingRound isPlayer = Inr v
      \<and> button v = JoinButton False label \<longrightarrow>
      loaded = Some (Some 0) \<and> \<not> isPlayer \<and> label = ''Join Challenge'')
   \<and> (loaded = Some (Some s) \<and> (s \<noteq> 0 \<or> isPlayer) \<longrightarrow>
      (\<exists>w l. ChallengeModal loaded roundId isJoining isLoadingRound isPlayer = Inr w
             \<and> button w = JoinButton True l))
   \<and> (loaded = Some None \<longrightarrow>
      ChallengeModal loaded roundId isJoining isLoadingRound isPlayer = Inl (TypeError ''toString'')
      \<or> (\<exists>w l. ChallengeModal loaded roundId isJoining isLoadingRound isPlayer = Inr w
               \<and> button w = JoinButton True l))"
  by (auto simp add: ChallengeModal_def getRoundStatus_def joinDisabled_def joinLabel_def
      roundStateNumber_def Let_def split: option.splits sum.splits if_splits)

text \<open>
  The theorem at a waiting round, a started round, a round the user has joined, and a
  round without a state.
\<close>

theorem join_enabled_only_waiting_witness:
  "ChallengeModal (Some (Some 0)) (Some 7) False False False =
     Inr \<lparr>status = Some \<lparr>text' = ''Waiting for players'', color = ''text-green-500''\<rparr>,
          button = JoinButton False ''Join Challenge''\<rparr>
   \<and> (\<exists>w l. ChallengeModal (Some (Some 1)) (Some 7) False False False = Inr w
            \<and> button w = JoinButton True l)
   \<and> (\<exists>w l. ChallengeModal (Some (Some 0)) (Some 7) False False True = Inr w
            \<and> button w = JoinButton True l)
   \<and> ChallengeModal (Some None) (Some 7) False False False = Inl (TypeError ''toString'')"
proof -
  have r: "ChallengeModal (Some (Some 0)) (Some 7) False False False =
     Inr \<lparr>status = Some \<lparr>text' = ''Waiting for players'', color = ''text-green-500''\<rparr>,
          button = JoinButton False ''Join Challenge''\<rparr>"
    by (simp add: ChallengeModal_def getRoundStatus_def joinDisabled_def joinLabel_def
        roundStateNumber_def)
  have n: "\<nexists>w. ChallengeModal (Some None) (Some 7) False False False = Inr w"
    by (simp add: ChallengeModal_def getRoundStatus_def)
  note t1 = join_enabled_only_waiting
    [where loaded = "Some (Some 0)" and roundId = "Some 7" and isJoining = False
       and isLoadingRound = False and isPlayer = False and label = "''Join Challenge''"
       and v = "\<lparr>status = Some \<lparr>text' = ''Waiting for players'', color = ''text-green-500''\<rparr>,
                 button = JoinButton False ''Join Challenge''\<rparr>"]
  note t2 = join_enabled_only_waiting
    [where loaded = "Some (Some 1)" and roundId = "Some 7" and isJoining = False
       and isLoadingRound = False and isPlayer = False and s = 1]
  note t3 = join_enabled_only_waiting
    [where loaded = "Some (Some 0)" and roundId = "Some 7" and isJoining = False
       and isLoadingRound = False and isPlayer = True and s = 0]
  note t4 = join_enabled_only_waiting
    [where loaded = "Some None" and roundId = "Some 7" and isJoining = False
       and isLoadingRound = False and isPlayer = False]
  from t2 have "\<exists>w l. ChallengeModal (Some (Some 1)) (Some 7) False False False = Inr w
            \<and> button w = JoinButton True l" by simp
  moreover from t3 have "\<exists>w l. ChallengeModal (Some (Some 0)) (Some 7) False False True = Inr w
            \<and> button w = JoinButton True l" by simp
  moreover from t4 n have
    "ChallengeModal (Some None) (Some 7) False False False = Inl (TypeError ''toString'')"
    by blast
  ultimately show ?thesis using r t1 by simp
qed

subsection \<open>The entity \<^verbatim>\<open>joinRound\<close> writes\<close>

text \<open>
  C4 asks for an entity id derived from the pair of player address and round id. The
  code derives it from the address alone (\<^verbatim>\<open>generateEntityId\<close> has no round
  argument): with the example SDK, whose entity id is the key list, alice's joins of
  round 1 and of round 2 both write under \<open>[1]\<close>, and after the first the second
  writes nothing, so the draft records (alice, 1) only.
\<close>

theorem joinRound_second_round_not_recorded:
  "joinRound example_sdk client_ok (Some alice) 1 ''tx-1'' =
     ([ApplyOptimisticUpdate ''tx-1'' (completes (joinRound_update alice 1 [1])),
       ActionJoinRound alice 1, ConfirmTransaction ''tx-1''], Inr ())
   \<and> joinRound example_sdk client_ok (Some alice) 2 ''tx-2'' =
     ([ApplyOptimisticUpdate ''tx-2'' (completes (joinRound_update alice 2 [1])),
       ActionJoinRound alice 2, ConfirmTransaction ''tx-2''], Inr ())
   \<and> entities (joinRound_update alice 2 [1] (joinRound_update alice 1 [1] empty_draft)) [1] =
       Some \<lparr>entityId = [1],
             models = Some \<lparr>lyricsflip = Some
               \<lparr>Rounds = None,
                RoundPlayer = Some \<lparr>player_to_round_id = (''0x1'', 1),
                                    joined = True, ready_state = False\<rparr>,
                RoundCreated = None\<rparr>\<rparr>\<rparr>
   \<and> joinRound_update alice 2 [1] (joinRound_update alice 1 [1] empty_draft) =
       joinRound_update alice 1 [1] empty_draft"
  by (simp add: joinRound_def generateEntityId_def prog_defs example_sdk_def alice_def
      client_ok_def joinRound_update_def empty_draft_def)

subsection \<open>The event entity \<^verbatim>\<open>createRound\<close> writes\<close>

lemma createRound_update_event:
  "entities (createRound_update env a g rid now now' d) (getEntityIdFromKeys env [rid, now']) =
     (case entities d (getEntityIdFromKeys env [rid, now']) of
        Some e \<Rightarrow> Some e
      | None \<Rightarrow>
          if getEntityIdFromKeys env [rid, now'] = getEntityIdFromKeys env [rid]
          then Some \<lparr>entityId = getEntityIdFromKeys env [rid],
                     models = Some \<lparr>lyricsflip = Some
                       \<lparr>Rounds = Some
                          \<lparr>round_id = rid,
                           round = Some
                                   \<lparr>creator = address a, genre = g, wager_amount = 0,
                                    start_time = now, state = 0, end_time = 0,
                                    next_card_index = 0, players_count = 1,
                                    ready_players_count = 0\<rparr>\<rparr>,
                        RoundPlayer = None, RoundCreated = None\<rparr>\<rparr>\<rparr>
          else Some \<lparr>entityId = getEntityIdFromKeys env [rid, now'],
                     models = Some \<lparr>lyricsflip = Some
                       \<lparr>Rounds = None, RoundPlayer = None,
                        RoundCreated = Some \<lparr>round_id' = rid, creator' = address a\<rparr>\<rparr>\<rparr>\<rparr>)"
  by (simp add: createRound_update_def Let_def split: option.splits)

text \<open>
  C5, as stated, fails: when the draft already holds an entity under the id derived
  from the round id and the timestamp, the update leaves that entity and writes no
  \<^verbatim>\<open>RoundCreated\<close> event.
\<close>

theorem roundCreated_not_written_counterexample:
  "entities (createRound_update example_sdk alice ''Rock'' 5 1000 1001 occupied_draft) [5, 1001]
     \<noteq> Some \<lparr>entityId = [5, 1001],
              models = Some \<lparr>lyricsflip = Some
                \<lparr>Rounds = None, RoundPlayer = None,
                 RoundCreated = Some \<lparr>round_id' = 5, creator' = ''0x1''\<rparr>\<rparr>\<rparr>\<rparr>"
  by (simp add: createRound_update_def example_sdk_def occupied_draft_def alice_def Let_def)

text \<open>
  C5, amended: a successful \<^verbatim>\<open>createRound\<close> applies one optimistic update; on
  a draft with no entity under the id that \<^verbatim>\<open>getEntityIdFromKeys\<close> gives for
  the round id and the timestamp (and with that id different from the round entity's),
  the update writes under that id an entity whose \<^verbatim>\<open>RoundCreated\<close> model records
  the round id and the creator's address; on a draft that already holds an entity under
  that id, the update keeps that entity.
\<close>

theorem roundCreated_written_when_fresh:
  "(actions_createRound client a g = Inr u \<and> actions_getRoundId client = Inr r
      \<and> roundIdOfResult env r = Inr rid \<longrightarrow>
      createRound env client (Some a) g tx now now' =
        ([ActionCreateRound a g, Delay 2000, ActionGetRoundId,
          ApplyOptimisticUpdate tx (completes (createRound_update env a g rid now now')),
          ConfirmTransaction tx], Inr rid))
   \<and> (entities d (getEntityIdFromKeys env [rid, now']) = None
      \<and> getEntityIdFromKeys env [rid, now'] \<noteq> getEntityIdFromKeys env [rid] \<longrightarrow>
      entities (createRound_update env a g rid now now' d) (getEntityIdFromKeys env [rid, now']) =
        Some \<lparr>entityId = getEntityIdFromKeys env [rid, now'],
              models = Some \<lparr>lyricsflip = Some
                \<lparr>Rounds = None, RoundPlayer = None,
                 RoundCreated = Some \<lparr>round_id' = rid, creator' = address a\<rparr>\<rparr>\<rparr>\<rparr>)
   \<and> (entities d (getEntityIdFromKeys env [rid, now']) = Some e \<longrightarrow>
      entities (createRound_update env a g rid now now' d) (getEntityIdFromKeys env [rid, now']) =
        Some e)"
  using createRound_update_event [of env a g rid now now' d]
  by (auto simp add: createRound_def prog_defs)

text \<open>The theorem at a successful call, on the empty draft and on an occupied one.\<close>

theorem roundCreated_written_when_fresh_witness:
  "actions_createRound client_ok alice ''Rock'' = Inr ()
   \<and> actions_getRoundId client_ok = Inr 5
   \<and> roundIdOfResult example_sdk 5 = Inr 5
   \<and> createRound example_sdk client_ok (Some alice) ''Rock'' ''tx-1'' 1000 1001 =
        ([ActionCreateRound alice ''Rock'', Delay 2000, ActionGetRoundId,
          ApplyOptimisticUpdate ''tx-1'' (completes (createRound_update example_sdk alice ''Rock'' 5 1000 1001)),
          ConfirmTransaction ''tx-1''], Inr 5)
   \<and> entities empty_draft [5, 1001] = None
   \<and> entities (createRound_update example_sdk alice ''Rock'' 5 1000 1001 empty_draft) [5, 1001] =
        Some \<lparr>entityId = [5, 1001],
              models = Some \<lparr>lyricsflip = Some
                \<lparr>Rounds = None, RoundPlayer = None,
                 RoundCreated = Some \<lparr>round_id' = 5, creator' = ''0x1''\<rparr>\<rparr>\<rparr>\<rparr>
   \<and> entities occupied_draft [5, 1001] = Some \<lparr>entityId = [5, 1001], models = None\<rparr>
   \<and> entities (createRound_update example_sdk alice ''Rock'' 5 1000 1001 occupied_draft) [5, 1001] =
        Some \<lparr>entityId = [5, 1001], models = None\<rparr>"
proof -
  have ok: "actions_createRound client_ok alice ''Rock'' = Inr ()"
    "actions_getRoundId client_ok = Inr 5"
    "roundIdOfResult example_sdk 5 = Inr 5"
    by (simp_all add: client_ok_def example_sdk_def)
  have k: "getEntityIdFromKeys example_sdk [5, 1001] = [5, 1001]"
    "getEntityIdFromKeys example_sdk [5] = [5]" "address alice = ''0x1''"
    by (simp_all add: example_sdk_def alice_def)
  have e: "entities empty_draft [5, 1001] = None"
    by (simp add: empty_draft_def)
  have o: "entities occupied_draft [5, 1001] = Some \<lparr>entityId = [5, 1001], models = None\<rparr>"
    by (simp add: occupied_draft_def)
  note t1 = roundCreated_written_when_fresh
    [where client = client_ok and a = alice and g = "''Rock''" and u = "()" and r = 5
       and env = example_sdk and rid = 5 and tx = "''tx-1''" and now = 1000 and now' = 1001
       and d = empty_draft]
  note t2 = roundCreated_written_when_fresh
    [where a = alice and g = "''Rock''" and env = example_sdk and rid = 5 and now = 1000
       and now' = 1001 and d = occupied_draft
       and e = "\<lparr>entityId = [5, 1001], models = None\<rparr>"]
  from t1 ok have
    "createRound example_sdk client_ok (Some alice) ''Rock'' ''tx-1'' 1000 1001 =
        ([ActionCreateRound alice ''Rock'', Delay 2000, ActionGetRoundId,
          ApplyOptimisticUpdate ''tx-1'' (completes (createRound_update example_sdk alice ''Rock'' 5 1000 1001)),
          ConfirmTransaction ''tx-1''], Inr 5)"
    by blast
  moreover from t1 k e have
    "entities (createRound_update example_sdk alice ''Rock'' 5 1000 1001 empty_draft) [5, 1001] =
        Some \<lparr>entityId = [5, 1001],
              models = Some \<lparr>lyricsflip = Some
                \<lparr>Rounds = None, RoundPlayer = None,
                 RoundCreated = Some \<lparr>round_id' = 5, creator' = ''0x1''\<rparr>\<rparr>\<rparr>\<rparr>"
    by simp
  moreover from t2 k o have
    "entities (createRound_update example_sdk alice ''Rock'' 5 1000 1001 occupied_draft) [5, 1001] =
        Some \<lparr>entityId = [5, 1001], models = None\<rparr>"
    by simp
  ultimately show ?thesis using ok e o by simp
qed

subsection \<open>The frame of \<^verbatim>\<open>startRound\<close>'s update\<close>

text \<open>
  C10: the update of \<^verbatim>\<open>startRound\<close> changes the draft at most at the entity
  keyed by the round id, every other entity is as before; when no entity has that id,
  or the entity has no \<^verbatim>\<open>Rounds\<close> model, the draft is unchanged; otherwise the
  entity is as before except that the \<^verbatim>\<open>state\<close> of its round is 1 and the
  \<^verbatim>\<open>start_time\<close> is the current time. On a \<^verbatim>\<open>Rounds\<close> model that has
  no \<^verbatim>\<open>round\<close> the update throws and changes nothing.
\<close>

theorem startRound_update_frame:
  "(\<forall>j d'. startRound_update env roundId now d = Inr d'
        \<and> j \<noteq> getEntityIdFromKeys env [roundId] \<longrightarrow>
        entities d' j = entities d j)
   \<and> (entities d (getEntityIdFromKeys env [roundId]) = None \<longrightarrow>
        startRound_update env roundId now d = Inr d)
   \<and> (roundsOf (entities d (getEntityIdFromKeys env [roundId])) = None \<longrightarrow>
        startRound_update env roundId now d = Inr d)
   \<and> (\<forall>e m ns r rd.
        entities d (getEntityIdFromKeys env [roundId]) = Some e \<and> models e = Some m
        \<and> lyricsflip m = Some ns \<and> Rounds ns = Some r \<and> round r = Some rd \<longrightarrow>
        startRound_update env roundId now d =
          Inr (d\<lparr>entities := (entities d)(getEntityIdFromKeys env [roundId] \<mapsto>
            e\<lparr>models := Some (m\<lparr>lyricsflip := Some (ns\<lparr>Rounds := Some
              (r\<lparr>round := Some (rd\<lparr>state := 1, start_time := now\<rparr>)\<rparr>)\<rparr>)\<rparr>)\<rparr>)\<rparr>))
   \<and> (\<forall>e m ns r.
        entities d (getEntityIdFromKeys env [roundId]) = Some e \<and> models e = Some m
        \<and> lyricsflip m = Some ns \<and> Rounds ns = Some r \<and> round r = None \<longrightarrow>
        startRound_update env roundId now d = Inl (TypeError ''state''))"
proof (intro conjI allI impI)
  fix j d'
  assume "startRound_update env roundId now d = Inr d'
      \<and> j \<noteq> getEntityIdFromKeys env [roundId]"
  then show "entities d' j = entities d j"
    by (cases "entities d (getEntityIdFromKeys env [roundId])")
      (auto simp add: startRound_update_def split: if_splits sum.splits)
next
  assume "entities d (getEntityIdFromKeys env [roundId]) = None"
  then show "startRound_update env roundId now d = Inr d"
    by (simp add: startRound_update_def)
next
  assume "roundsOf (entities d (getEntityIdFromKeys env [roundId])) = None"
  then show "startRound_update env roundId now d = Inr d"
    by (cases "entities d (getEntityIdFromKeys env [roundId])")
      (simp_all add: startRound_update_def)
next
  fix e m ns r rd
  assume "entities d (getEntityIdFromKeys env [roundId]) = Some e \<and> models e = Some m
      \<and> lyricsflip m = Some ns \<and> Rounds ns = Some r \<and> round r = Some rd"
  then show "startRound_update env roundId now d =
      Inr (d\<lparr>entities := (entities d)(getEntityIdFromKeys env [roundId] \<mapsto>
        e\<lparr>models := Some (m\<lparr>lyricsflip := Some (ns\<lparr>Rounds := Some
          (r\<lparr>round := Some (rd\<lparr>state := 1, start_time := now\<rparr>)\<rparr>)\<rparr>)\<rparr>)\<rparr>)\<rparr>)"
    by (simp add: startRound_update_def roundsOf_def setStarted_def)
next
  fix e m ns r
  assume "entities d (getEntityIdFromKeys env [roundId]) = Some e \<and> models e = Some m
      \<and> lyricsflip m = Some ns \<and> Rounds ns = Some r \<and> round r = None"
  then show "startRound_update env roundId now d = Inl (TypeError ''state'')"
    by (simp add: startRound_update_def roundsOf_def setStarted_def)
qed

lemma round_seven_entities:
  "entities round_seven_draft [7] =
     Some \<lparr>entityId = [7],
           models = Some \<lparr>lyricsflip = Some
             \<lparr>Rounds = Some
                \<lparr>round_id = 7,
                 round = Some \<lparr>creator = ''0x1'', genre = ''Rock'', wager_amount = 0,
                               start_time = 500, state = 0, end_time = 0,
                               next_card_index = 0, players_count = 1,
                               ready_players_count = 0\<rparr>\<rparr>,
              RoundPlayer = None, RoundCreated = None\<rparr>\<rparr>\<rparr>"
  "entities round_seven_draft [7, 501] =
     Some \<lparr>entityId = [7, 501],
           models = Some \<lparr>lyricsflip = Some
             \<lparr>Rounds = None, RoundPlayer = None,
              RoundCreated = Some \<lparr>round_id' = 7, creator' = ''0x1''\<rparr>\<rparr>\<rparr>\<rparr>"
  by (simp_all add: round_seven_draft_def createRound_update_def example_sdk_def alice_def
      empty_draft_def Let_def)

lemma roundless_entity:
  "entities roundless_draft [7] =
     Some \<lparr>entityId = [7],
           models = Some \<lparr>lyricsflip = Some
             \<lparr>Rounds = Some \<lparr>round_id = 7, round = None\<rparr>,
              RoundPlayer = None, RoundCreated = None\<rparr>\<rparr>\<rparr>"
  by (simp add: roundless_draft_def)

text \<open>
  The theorem on the draft that holds round 7 and its event entity, on the empty
  draft, and on the draft whose round 7 has no \<^verbatim>\<open>round\<close>.
\<close>

theorem startRound_update_frame_witness:
  "(\<exists>d'. startRound_update example_sdk 7 1000 round_seven_draft = Inr d'
      \<and> entities d' [7] =
          Some \<lparr>entityId = [7],
                models = Some \<lparr>lyricsflip = Some
                  \<lparr>Rounds = Some
                     \<lparr>round_id = 7,
                      round = Some \<lparr>creator = ''0x1'', genre = ''Rock'', wager_amount = 0,
                                    start_time = 1000, state = 1, end_time = 0,
                                    next_card_index = 0, players_count = 1,
                                    ready_players_count = 0\<rparr>\<rparr>,
                   RoundPlayer = None, RoundCreated = None\<rparr>\<rparr>\<rparr>
      \<and> entities d' [7, 501] = entities round_seven_draft [7, 501])
   \<and> entities round_seven_draft [7, 501] \<noteq> None
   \<and> entities empty_draft [7] = None
   \<and> startRound_update example_sdk 7 1000 empty_draft = Inr empty_draft
   \<and> startRound_update example_sdk 7 1000 roundless_draft = Inl (TypeError ''state'')"
proof -
  have k: "getEntityIdFromKeys example_sdk [7] = [7]"
    by (simp add: example_sdk_def)
  have e: "entities empty_draft [7] = None"
    by (simp add: empty_draft_def)
  note t1 = startRound_update_frame
    [where env = example_sdk and roundId = 7 and now = 1000 and d = round_seven_draft]
  note t2 = startRound_update_frame
    [where env = example_sdk and roundId = 7 and now = 1000 and d = empty_draft]
  note t3 = startRound_update_frame
    [where env = example_sdk and roundId = 7 and now = 1000 and d = roundless_draft]
  note others = t1 [THEN conjunct1, rule_format]
  note started = t1 [THEN conjunct2, THEN conjunct2, THEN conjunct2, THEN conjunct1]
  note absent = t2 [THEN conjunct2, THEN conjunct1]
  note thrown = t3 [THEN conjunct2, THEN conjunct2, THEN conjunct2, THEN conjunct2]
  from started obtain d' where d':
    "startRound_update example_sdk 7 1000 round_seven_draft = Inr d'"
    "entities d' [7] =
       Some \<lparr>entityId = [7],
             models = Some \<lparr>lyricsflip = Some
               \<lparr>Rounds = Some
                  \<lparr>round_id = 7,
                   round = Some \<lparr>creator = ''0x1'', genre = ''Rock'', wager_amount = 0,
                                 start_time = 1000, state = 1, end_time = 0,
                                 next_card_index = 0, players_count = 1,
                                 ready_players_count = 0\<rparr>\<rparr>,
                RoundPlayer = None, RoundCreated = None\<rparr>\<rparr>\<rparr>"
    by (simp add: k round_seven_entities)
  have "[7, 501] \<noteq> getEntityIdFromKeys example_sdk [7]"
    by (simp add: k)
  with others [of d' "[7, 501]"] d'(1)
  have other: "entities d' [7, 501] = entities round_seven_draft [7, 501]"
    by blast
  from absent e have unchanged:
    "startRound_update example_sdk 7 1000 empty_draft = Inr empty_draft"
    by (simp add: k)
  from thrown have threw:
    "startRound_update example_sdk 7 1000 roundless_draft = Inl (TypeError ''state'')"
    by (simp add: k roundless_entity)
  from d' other unchanged threw e show ?thesis
    by (simp add: round_seven_entities)
qed

end
